theory Spec2Isabelle
  imports Main "HOL-Library.Sublist"
begin

section \<open>JavaScript values handled by the orchestrator\<close>

text \<open>
  The component \<open>App\<close> keeps three pieces of React state: \<open>view\<close>, \<open>error\<close> and
  \<open>sessionData\<close>. The values stored in \<open>sessionData\<close> are whatever the parsed response
  bodies carry, so they are modelled as JavaScript values. \<open>JUndefined\<close> is the result of
  reading a property that an object does not have. \<open>JNum\<close> stands for an integer-valued
  number of magnitude at most \<open>2^53\<close>, which JavaScript prints with all its decimal digits;
  other numbers are outside the model. An object is the list of its own
  properties, each key occurring once. Strings are byte strings: a character outside
  ASCII is written as its UTF-8 bytes.
\<close>

datatype jsval =
    JUndefined
  | JNull
  | JBool bool
  | JNum int
  | JStr string
  | JArr "jsval list"
  | JObj "(string \<times> jsval) list"

text \<open>Truthiness, as used by \<open>err.detail || '...'\<close>.\<close>

fun truthy :: "jsval \<Rightarrow> bool" where
  "truthy JUndefined = False"
| "truthy JNull = False"
| "truthy (JBool b) = b"
| "truthy (JNum n) = (n \<noteq> 0)"
| "truthy (JStr s) = (s \<noteq> [])"
| "truthy (JArr xs) = True"
| "truthy (JObj kvs) = True"

text \<open>\<open>a || b\<close>\<close>

definition js_or :: "jsval \<Rightarrow> jsval \<Rightarrow> jsval" where
  "js_or a b = (if truthy a then a else b)"

text \<open>
  String conversion: a string is itself, an array is its elements joined by commas
  (\<open>null\<close> and \<open>undefined\<close> elements give the empty string), an object is
  \<open>[object Object]\<close>.
\<close>

fun show_nat :: "nat \<Rightarrow> string" where
  "show_nat n =
     (if n < 10 then [''0123456789'' ! n]
      else show_nat (n div 10) @ [''0123456789'' ! (n mod 10)])"

declare show_nat.simps [simp del]

definition show_int :: "int \<Rightarrow> string" where
  "show_int i = (if i < 0 then CHR ''-'' # show_nat (nat (- i)) else show_nat (nat i))"

fun to_string :: "jsval \<Rightarrow> string"
  and join_elems :: "jsval list \<Rightarrow> string" where
  "to_string JUndefined = ''undefined''"
| "to_string JNull = ''null''"
| "to_string (JBool b) = (if b then ''true'' else ''false'')"
| "to_string (JNum n) = show_int n"
| "to_string (JStr s) = s"
| "to_string (JArr xs) = join_elems xs"
| "to_string (JObj kvs) = ''[object Object]''"
| "join_elems [] = []"
| "join_elems (x # xs) =
     (case x of JUndefined \<Rightarrow> [] | JNull \<Rightarrow> [] | _ \<Rightarrow> to_string x)
     @ (if xs = [] then [] else CHR '','' # join_elems xs)"

text \<open>
  The conversion of an object calls its \<open>toString\<close>, which is the inherited one unless the
  object has an own property of that name. A parsed body holds no functions, so an own
  \<open>toString\<close> cannot be called, and the conversion throws a \<open>TypeError\<close>; so does the
  conversion of an array with such an element.
\<close>

fun convertible :: "jsval \<Rightarrow> bool"
  and all_convertible :: "jsval list \<Rightarrow> bool" where
  "convertible (JArr xs) = all_convertible xs"
| "convertible (JObj kvs) = (map_of kvs ''toString'' = None)"
| "convertible v = True"
| "all_convertible [] = True"
| "all_convertible (x # xs) = (convertible x \<and> all_convertible xs)"

text \<open>
  The message of the error that \<open>throw new Error(x)\<close> throws: \<open>new Error(x)\<close> converts \<open>x\<close>
  to a string, unless \<open>x\<close> is \<open>undefined\<close>; if the conversion throws, the error thrown is
  that \<open>TypeError\<close> (the wording is V8's).
\<close>

definition new_Error_message :: "jsval \<Rightarrow> string" where
  "new_Error_message x =
     (if x = JUndefined then []
      else if convertible x then to_string x
      else ''Cannot convert object to primitive value'')"

text \<open>
  Reading a property \<open>v.p\<close>. On \<open>null\<close> and \<open>undefined\<close> the read throws a
  \<open>TypeError\<close>; its message (the wording is the engine's, here V8's) is the \<open>Inl\<close>
  result. On an object the read gives the property's value or \<open>undefined\<close>; on any other
  value it gives \<open>undefined\<close> (none of the property names read by the handlers is a
  built-in or inherited property of objects, strings, arrays, numbers or booleans).
\<close>

definition type_error_message :: "jsval \<Rightarrow> string \<Rightarrow> string" where
  "type_error_message v p =
     ''Cannot read properties of '' @ to_string v @ '' (reading '' @ [CHR 0x27] @ p @ [CHR 0x27] @ '')''"

fun get_prop :: "jsval \<Rightarrow> string \<Rightarrow> string + jsval" where
  "get_prop JUndefined p = Inl (type_error_message JUndefined p)"
| "get_prop JNull p = Inl (type_error_message JNull p)"
| "get_prop (JObj kvs) p = Inr (case map_of kvs p of None \<Rightarrow> JUndefined | Some v \<Rightarrow> v)"
| "get_prop v p = Inr JUndefined"

text \<open>
  \<open>String.prototype.trim\<close>, on the ASCII white space and line terminators (tab, line
  feed, vertical tab, form feed, carriage return, space). White space outside ASCII is
  not stripped here; \<open>trim\<close> is only used to disable a button on a blank text, so the
  model offers every submission that the page offers.
\<close>

definition js_space :: "char \<Rightarrow> bool" where
  "js_space c = (c \<in> set [CHR 0x09, CHR 0x0A, CHR 0x0B, CHR 0x0C, CHR 0x0D, CHR 0x20])"

definition js_trim :: "string \<Rightarrow> string" where
  "js_trim s = rev (dropWhile js_space (rev (dropWhile js_space s)))"

section \<open>Requests and responses\<close>

text \<open>
  A call of \<open>fetch(url, {method: 'POST', ...})\<close>. The body is either a \<open>FormData\<close> with
  its entries, or the object handed to \<open>JSON.stringify\<close> (sent with the header
  \<open>Content-Type: application/json\<close>), given as the list of its properties in the order
  of the object literal.
\<close>

type_synonym audio_file = string

datatype payload =
    FormData "(string \<times> audio_file) list"
  | Json "(string \<times> jsval) list"

datatype request = Post string payload

text \<open>
  What an awaited \<open>fetch\<close> can produce: the promise rejects (a network failure, with the
  message of the thrown error), or it resolves to a response with its \<open>ok\<close> flag and a
  body. \<open>res.json()\<close> on the body either rejects (the body is not JSON; the message is the
  parser's) or resolves to the parsed value.
\<close>

datatype body = Unparseable string | Parsed jsval

datatype response = NetworkError string | Response bool body

section \<open>The state of \<open>App\<close>\<close>

record app_state =
  view :: string
  error :: string
  sessionData :: "string \<rightharpoonup> jsval"

text \<open>The property read \<open>sessionData.k\<close>.\<close>

definition session_get :: "(string \<rightharpoonup> jsval) \<Rightarrow> string \<Rightarrow> jsval" where
  "session_get d k = (case d k of None \<Rightarrow> JUndefined | Some v \<Rightarrow> v)"

text \<open>The initial values of the three \<open>useState\<close> calls.\<close>

definition initial_state :: app_state where
  "initial_state =
     \<lparr> view = ''upload'',
       error = '''',
       sessionData =
         [''relatorio_descoberta'' \<mapsto> JStr '''',
          ''bpmn_xml_as_is'' \<mapsto> JStr '''',
          ''bpmn_validation_as_is'' \<mapsto> JNull,
          ''consultoria'' \<mapsto> JStr '''',
          ''propostas_aprovadas'' \<mapsto> JStr '''',
          ''bpmn_xml_to_be'' \<mapsto> JStr '''',
          ''bpmn_validation_to_be'' \<mapsto> JNull,
          ''pop_texto'' \<mapsto> JStr '''',
          ''aviso_bizagi'' \<mapsto> JStr ''''] \<rparr>"

text \<open>
  \<open>updateSession(updates)\<close> is \<open>setSessionData(prev => ({ ...prev, ...updates }))\<close>:
  the spread keeps every property of \<open>prev\<close> and then writes every property of
  \<open>updates\<close>, also one whose value is \<open>undefined\<close>.
\<close>

definition updateSession :: "(string \<rightharpoonup> jsval) \<Rightarrow> app_state \<Rightarrow> app_state" where
  "updateSession updates s = s\<lparr>sessionData := sessionData s ++ updates\<rparr>"

section \<open>The handlers\<close>

text \<open>
  Every handler but \<open>handleReset\<close> is an \<open>async\<close> function with one suspension point
  that matters, the awaited \<open>fetch\<close>. It is modelled in two parts: \<open>_call\<close> is the
  synchronous part up to the \<open>fetch\<close> and returns the new state with the request issued;
  \<open>_settle\<close> is the rest of the \<open>try\<close> block and the \<open>catch\<close>, run on the state in which
  the response arrives. State setters take effect in the order in which they are called;
  a handler reads \<open>sessionData\<close> as it is when the handler is invoked.
\<close>

text \<open>The default messages \<open>Erro no Modulo N\<close>, with the accented letter in UTF-8.\<close>

definition erro_no_modulo :: "string \<Rightarrow> string" where
  "erro_no_modulo n = ''Erro no M'' @ [CHR 0xC3, CHR 0xB3] @ ''dulo '' @ n"

text \<open>
  The block every handler repeats after the \<open>fetch\<close>:
  \<^verbatim>\<open>
  if (!res.ok) {
      const err = await res.json()
      throw new Error(err.detail || 'Erro no Modulo N')
  }
  const json = await res.json()
  \<close>
  \<open>Inl\<close> is the message of the error thrown (by \<open>fetch\<close>, by \<open>res.json()\<close>, by the read of
  \<open>err.detail\<close>, or by the \<open>throw\<close>), \<open>Inr\<close> the parsed body of a response that is \<open>ok\<close>.
\<close>

definition await_json :: "string \<Rightarrow> response \<Rightarrow> string + jsval" where
  "await_json dflt r =
     (case r of
        NetworkError msg \<Rightarrow> Inl msg
      | Response ok b \<Rightarrow>
          (if \<not> ok then
             (case b of
                Unparseable msg \<Rightarrow> Inl msg
              | Parsed err \<Rightarrow>
                  (case get_prop err ''detail'' of
                     Inl msg \<Rightarrow> Inl msg
                   | Inr detail \<Rightarrow> Inl (new_Error_message (js_or detail (JStr dflt)))))
           else
             (case b of
                Unparseable msg \<Rightarrow> Inl msg
              | Parsed json \<Rightarrow> Inr json)))"

text \<open>The \<open>catch\<close> block: \<open>setError(e.message); setView('error')\<close>.\<close>

definition catch_error :: "string \<Rightarrow> app_state \<Rightarrow> app_state" where
  "catch_error msg s = s\<lparr>error := msg, view := ''error''\<rparr>"

subsection \<open>Module 1\<close>

definition handleUpload_call :: "audio_file \<Rightarrow> app_state \<Rightarrow> app_state \<times> request" where
  "handleUpload_call f s =
     (s\<lparr>view := ''modulo1'', error := ''''\<rparr>,
      Post ''/api/modulo1'' (FormData [(''file'', f)]))"

definition handleUpload_settle :: "response \<Rightarrow> app_state \<Rightarrow> app_state" where
  "handleUpload_settle r s =
     (case await_json (erro_no_modulo ''1'') r of
        Inl msg \<Rightarrow> catch_error msg s
      | Inr json \<Rightarrow>
          (case get_prop json ''relatorio_descoberta'' of
             Inl msg \<Rightarrow> catch_error msg s
           | Inr rel \<Rightarrow>
               (updateSession [''relatorio_descoberta'' \<mapsto> rel] s)\<lparr>view := ''review1''\<rparr>))"

definition handleTextUpload_call :: "string \<Rightarrow> app_state \<Rightarrow> app_state \<times> request" where
  "handleTextUpload_call text s =
     (s\<lparr>view := ''modulo1'', error := ''''\<rparr>,
      Post ''/api/modulo1-text'' (Json [(''transcricao'', JStr text)]))"

definition handleTextUpload_settle :: "response \<Rightarrow> app_state \<Rightarrow> app_state" where
  "handleTextUpload_settle r s =
     (case await_json (erro_no_modulo ''1'') r of
        Inl msg \<Rightarrow> catch_error msg s
      | Inr json \<Rightarrow>
          (case get_prop json ''relatorio_descoberta'' of
             Inl msg \<Rightarrow> catch_error msg s
           | Inr rel \<Rightarrow>
               (updateSession [''relatorio_descoberta'' \<mapsto> rel] s)\<lparr>view := ''review1''\<rparr>))"

subsection \<open>Module 2\<close>

definition handleModulo2_call :: "app_state \<Rightarrow> app_state \<times> request" where
  "handleModulo2_call s =
     (s\<lparr>view := ''modulo2'', error := ''''\<rparr>,
      Post ''/api/modulo2''
        (Json [(''relatorio_descoberta'', session_get (sessionData s) ''relatorio_descoberta'')]))"

definition handleModulo2_settle :: "response \<Rightarrow> app_state \<Rightarrow> app_state" where
  "handleModulo2_settle r s =
     (case await_json (erro_no_modulo ''2'') r of
        Inl msg \<Rightarrow> catch_error msg s
      | Inr json \<Rightarrow>
          (case get_prop json ''bpmn_xml_as_is'' of
             Inl msg \<Rightarrow> catch_error msg s
           | Inr xml \<Rightarrow>
          (case get_prop json ''bpmn_validation'' of
             Inl msg \<Rightarrow> catch_error msg s
           | Inr val \<Rightarrow>
          (case get_prop json ''aviso_bizagi'' of
             Inl msg \<Rightarrow> catch_error msg s
           | Inr aviso \<Rightarrow>
               (updateSession
                  [''bpmn_xml_as_is'' \<mapsto> xml,
                   ''bpmn_validation_as_is'' \<mapsto> val,
                   ''aviso_bizagi'' \<mapsto> aviso] s)\<lparr>view := ''review2''\<rparr>))))"

subsection \<open>Module 3A\<close>

definition handleModulo3a_call :: "app_state \<Rightarrow> app_state \<times> request" where
  "handleModulo3a_call s =
     (s\<lparr>view := ''modulo3a'', error := ''''\<rparr>,
      Post ''/api/modulo3a''
        (Json [(''relatorio_descoberta'', session_get (sessionData s) ''relatorio_descoberta''),
               (''bpmn_xml_as_is'', session_get (sessionData s) ''bpmn_xml_as_is'')]))"

definition handleModulo3a_settle :: "response \<Rightarrow> app_state \<Rightarrow> app_state" where
  "handleModulo3a_settle r s =
     (case await_json (erro_no_modulo ''3A'') r of
        Inl msg \<Rightarrow> catch_error msg s
      | Inr json \<Rightarrow>
          (case get_prop json ''consultoria'' of
             Inl msg \<Rightarrow> catch_error msg s
           | Inr cons \<Rightarrow>
               (updateSession [''consultoria'' \<mapsto> cons] s)\<lparr>view := ''review3a''\<rparr>))"

subsection \<open>Module 3B\<close>

text \<open>
  \<open>updateSession({ propostas_aprovadas: propostas })\<close> is called before the \<open>fetch\<close>; the
  request body reads \<open>relatorio_descoberta\<close> and \<open>consultoria\<close> from the \<open>sessionData\<close> of
  the invocation and takes \<open>propostas\<close> from the argument.
\<close>

definition handleModulo3b_call :: "string \<Rightarrow> app_state \<Rightarrow> app_state \<times> request" where
  "handleModulo3b_call propostas s =
     (updateSession [''propostas_aprovadas'' \<mapsto> JStr propostas]
        (s\<lparr>view := ''modulo3b'', error := ''''\<rparr>),
      Post ''/api/modulo3b''
        (Json [(''relatorio_descoberta'', session_get (sessionData s) ''relatorio_descoberta''),
               (''consultoria'', session_get (sessionData s) ''consultoria''),
               (''propostas_aprovadas'', JStr propostas)]))"

definition handleModulo3b_settle :: "response \<Rightarrow> app_state \<Rightarrow> app_state" where
  "handleModulo3b_settle r s =
     (case await_json (erro_no_modulo ''3B'') r of
        Inl msg \<Rightarrow> catch_error msg s
      | Inr json \<Rightarrow>
          (case get_prop json ''bpmn_xml_to_be'' of
             Inl msg \<Rightarrow> catch_error msg s
           | Inr xml \<Rightarrow>
          (case get_prop json ''bpmn_validation'' of
             Inl msg \<Rightarrow> catch_error msg s
           | Inr val \<Rightarrow>
          (case get_prop json ''aviso_bizagi'' of
             Inl msg \<Rightarrow> catch_error msg s
           | Inr aviso \<Rightarrow>
               (updateSession
                  [''bpmn_xml_to_be'' \<mapsto> xml,
                   ''bpmn_validation_to_be'' \<mapsto> val,
                   ''aviso_bizagi'' \<mapsto> aviso] s)\<lparr>view := ''review3b''\<rparr>))))"

subsection \<open>Module 4\<close>

definition handleModulo4_call :: "app_state \<Rightarrow> app_state \<times> request" where
  "handleModulo4_call s =
     (s\<lparr>view := ''modulo4'', error := ''''\<rparr>,
      Post ''/api/modulo4''
        (Json [(''bpmn_xml_to_be'', session_get (sessionData s) ''bpmn_xml_to_be''),
               (''relatorio_descoberta'', session_get (sessionData s) ''relatorio_descoberta'')]))"

definition handleModulo4_settle :: "response \<Rightarrow> app_state \<Rightarrow> app_state" where
  "handleModulo4_settle r s =
     (case await_json (erro_no_modulo ''4'') r of
        Inl msg \<Rightarrow> catch_error msg s
      | Inr json \<Rightarrow>
          (case get_prop json ''pop_texto'' of
             Inl msg \<Rightarrow> catch_error msg s
           | Inr pop \<Rightarrow>
               (updateSession [''pop_texto'' \<mapsto> pop] s)\<lparr>view := ''final''\<rparr>))"

subsection \<open>Reset and the progress indicator\<close>

definition handleReset :: "app_state \<Rightarrow> app_state" where
  "handleReset s =
     s\<lparr>view := ''upload'',
       error := '''',
       sessionData :=
         [''relatorio_descoberta'' \<mapsto> JStr '''',
          ''bpmn_xml_as_is'' \<mapsto> JStr '''',
          ''bpmn_validation_as_is'' \<mapsto> JNull,
          ''consultoria'' \<mapsto> JStr '''',
          ''propostas_aprovadas'' \<mapsto> JStr '''',
          ''bpmn_xml_to_be'' \<mapsto> JStr '''',
          ''bpmn_validation_to_be'' \<mapsto> JNull,
          ''pop_texto'' \<mapsto> JStr '''',
          ''aviso_bizagi'' \<mapsto> JStr '''']\<rparr>"

text \<open>\<open>getActiveStep\<close>; \<open>view.startsWith(p)\<close> is \<open>prefix p view\<close>.\<close>

definition getActiveStep :: "app_state \<Rightarrow> int" where
  "getActiveStep s =
     (if prefix ''modulo1'' (view s) \<or> view s = ''review1'' then 0
      else if prefix ''modulo2'' (view s) \<or> view s = ''review2'' then 1
      else if prefix ''modulo3'' (view s) \<or> view s = ''review3a'' \<or> view s = ''review3b'' then 2
      else if prefix ''modulo4'' (view s) \<or> view s = ''final'' then 3
      else - 1)"


section \<open>The orchestrator as a transition system\<close>

text \<open>
  Besides the React state, the running application has the calls that were issued and
  have not settled yet (each is a suspended handler, named by the handler it belongs
  to), and the requests it has sent so far. Resetting does not touch a suspended
  handler: \<open>handleReset\<close> only calls the three setters.
\<close>

datatype handler = HUpload | HTextUpload | HModulo2 | HModulo3a | HModulo3b | HModulo4

datatype action =
    Upload audio_file
  | TextUpload string
  | ApproveModulo2
  | ApproveModulo3a
  | ApproveModulo3b string
  | ApproveModulo4
  | Reset

datatype event =
    User action
  | Settle nat response

record system =
  ui :: app_state
  inflight :: "handler list"
  sent :: "request list"

definition initial_system :: system where
  "initial_system = \<lparr> ui = initial_state, inflight = [], sent = [] \<rparr>"

definition issue :: "handler \<Rightarrow> app_state \<times> request \<Rightarrow> system \<Rightarrow> system" where
  "issue h p c = c\<lparr>ui := fst p, inflight := inflight c @ [h], sent := sent c @ [snd p]\<rparr>"

fun invoke :: "action \<Rightarrow> system \<Rightarrow> system" where
  "invoke (Upload f) c = issue HUpload (handleUpload_call f (ui c)) c"
| "invoke (TextUpload t) c = issue HTextUpload (handleTextUpload_call t (ui c)) c"
| "invoke ApproveModulo2 c = issue HModulo2 (handleModulo2_call (ui c)) c"
| "invoke ApproveModulo3a c = issue HModulo3a (handleModulo3a_call (ui c)) c"
| "invoke (ApproveModulo3b p) c = issue HModulo3b (handleModulo3b_call p (ui c)) c"
| "invoke ApproveModulo4 c = issue HModulo4 (handleModulo4_call (ui c)) c"
| "invoke Reset c = c\<lparr>ui := handleReset (ui c)\<rparr>"

fun settle :: "handler \<Rightarrow> response \<Rightarrow> app_state \<Rightarrow> app_state" where
  "settle HUpload r s = handleUpload_settle r s"
| "settle HTextUpload r s = handleTextUpload_settle r s"
| "settle HModulo2 r s = handleModulo2_settle r s"
| "settle HModulo3a r s = handleModulo3a_settle r s"
| "settle HModulo3b r s = handleModulo3b_settle r s"
| "settle HModulo4 r s = handleModulo4_settle r s"

text \<open>
  One step: the user invokes a handler, or the \<open>i\<close>-th call in flight settles with a
  response. An event that names no call in flight changes nothing.
\<close>

fun step :: "event \<Rightarrow> system \<Rightarrow> system" where
  "step (User a) c = invoke a c"
| "step (Settle i r) c =
     (if i < length (inflight c)
      then c\<lparr>ui := settle (inflight c ! i) r (ui c),
             inflight := take i (inflight c) @ drop (Suc i) (inflight c)\<rparr>
      else c)"

text \<open>The states visited by a sequence of events, the first one included.\<close>

fun trace :: "system \<Rightarrow> event list \<Rightarrow> system list" where
  "trace c [] = [c]"
| "trace c (e # es) = c # trace (step e c) es"

subsection \<open>What the rendered page offers\<close>

text \<open>
  \<open>App\<close> renders \<open>UploadPage\<close> in view \<open>upload\<close>, only the progress indicator in the five
  processing views, \<open>ResultPage\<close> in the review views and in \<open>final\<close>, and the error
  banner with its restart button in view \<open>error\<close>. \<open>UploadPage\<close> submits a chosen file,
  or a text whose \<open>trim()\<close> is not empty. \<open>ResultPage\<close> offers in each review view the
  approval of the next module and a reset, in \<open>final\<close> the reset alone; the approval in
  \<open>review3a\<close> is disabled while \<open>propostas.trim()\<close> is empty. A call in flight may settle
  at any time.
\<close>

fun offered :: "action \<Rightarrow> app_state \<Rightarrow> bool" where
  "offered (Upload f) s = (view s = ''upload'')"
| "offered (TextUpload t) s = (view s = ''upload'' \<and> js_trim t \<noteq> [])"
| "offered ApproveModulo2 s = (view s = ''review1'')"
| "offered ApproveModulo3a s = (view s = ''review2'')"
| "offered (ApproveModulo3b p) s = (view s = ''review3a'' \<and> js_trim p \<noteq> [])"
| "offered ApproveModulo4 s = (view s = ''review3b'')"
| "offered Reset s =
     (view s \<in> set [''review1'', ''review2'', ''review3a'', ''review3b'', ''final'', ''error''])"

fun enabled :: "event \<Rightarrow> system \<Rightarrow> bool" where
  "enabled (User a) c = offered a (ui c)"
| "enabled (Settle i r) c = (i < length (inflight c))"

inductive reachable :: "system \<Rightarrow> bool" where
  init: "reachable initial_system"
| step: "reachable c \<Longrightarrow> enabled e c \<Longrightarrow> reachable (step e c)"

text \<open>The processing view a handler sets before its call.\<close>

fun processing_view :: "handler \<Rightarrow> string" where
  "processing_view HUpload = ''modulo1''"
| "processing_view HTextUpload = ''modulo1''"
| "processing_view HModulo2 = ''modulo2''"
| "processing_view HModulo3a = ''modulo3a''"
| "processing_view HModulo3b = ''modulo3b''"
| "processing_view HModulo4 = ''modulo4''"

text \<open>
  The outcomes of a call that end in the \<open>catch\<close> block: the \<open>fetch\<close> rejects, the
  response is not \<open>ok\<close>, the body is not JSON, or the body is \<open>null\<close> (the read of the
  first result property throws).
\<close>

fun call_fails :: "response \<Rightarrow> bool" where
  "call_fails (NetworkError msg) = True"
| "call_fails (Response ok (Unparseable msg)) = True"
| "call_fails (Response ok (Parsed v)) = (\<not> ok \<or> v = JNull \<or> v = JUndefined)"

subsection \<open>Vocabulary for the properties\<close>

text \<open>
  The pipeline states of the specification are the values of \<open>view\<close> (with \<open>error\<close> as
  the message of the failed state), as the comment at the head of the source lists them:
  Idle is \<open>upload\<close>; Running(1), Running(2), Running(3a), Running(3b), Running(4) are
  \<open>modulo1\<close>, \<open>modulo2\<close>, \<open>modulo3a\<close>, \<open>modulo3b\<close>, \<open>modulo4\<close>; AwaitingReview(1), (2),
  (3a), (3b) and (final) are \<open>review1\<close>, \<open>review2\<close>, \<open>review3a\<close>, \<open>review3b\<close> and \<open>final\<close>;
  Failed is \<open>error\<close>.
\<close>

text \<open>The review view a handler sets when its call succeeds.\<close>

fun review_view :: "handler \<Rightarrow> string" where
  "review_view HUpload = ''review1''"
| "review_view HTextUpload = ''review1''"
| "review_view HModulo2 = ''review2''"
| "review_view HModulo3a = ''review3a''"
| "review_view HModulo3b = ''review3b''"
| "review_view HModulo4 = ''final''"

text \<open>The properties of \<open>sessionData\<close> a handler writes when its call succeeds.\<close>

fun written :: "handler \<Rightarrow> string list" where
  "written HUpload = [''relatorio_descoberta'']"
| "written HTextUpload = [''relatorio_descoberta'']"
| "written HModulo2 = [''bpmn_xml_as_is'', ''bpmn_validation_as_is'', ''aviso_bizagi'']"
| "written HModulo3a = [''consultoria'']"
| "written HModulo3b = [''bpmn_xml_to_be'', ''bpmn_validation_to_be'', ''aviso_bizagi'']"
| "written HModulo4 = [''pop_texto'']"

text \<open>The number in a handler's default error message.\<close>

fun modulo_label :: "handler \<Rightarrow> string" where
  "modulo_label HUpload = ''1''"
| "modulo_label HTextUpload = ''1''"
| "modulo_label HModulo2 = ''2''"
| "modulo_label HModulo3a = ''3A''"
| "modulo_label HModulo3b = ''3B''"
| "modulo_label HModulo4 = ''4''"

fun endpoint :: "request \<Rightarrow> string" where
  "endpoint (Post url p) = url"

text \<open>
  The linear run: one submission, then four approvals, each call settling before the
  next action (so the call that settles is always the only one in flight).
\<close>

definition linear_run ::
  "action \<Rightarrow> string \<Rightarrow> response \<Rightarrow> response \<Rightarrow> response \<Rightarrow> response \<Rightarrow> response \<Rightarrow> event list" where
  "linear_run submit p r1 r2 r3 r4 r5 =
     [User submit, Settle 0 r1,
      User ApproveModulo2, Settle 0 r2,
      User ApproveModulo3a, Settle 0 r3,
      User (ApproveModulo3b p), Settle 0 r4,
      User ApproveModulo4, Settle 0 r5]"


text \<open>
  The invariant of the reachable states. In each view it fixes the calls in flight, and
  says which properties of \<open>sessionData\<close> still have their initial values, or that the
  approved proposals are a non-empty string.
\<close>

definition untouched :: "(string \<rightharpoonup> jsval) \<Rightarrow> string list \<Rightarrow> bool" where
  "untouched d ks = list_all (\<lambda>k. d k = sessionData initial_state k) ks"

definition chosen :: "(string \<rightharpoonup> jsval) \<Rightarrow> bool" where
  "chosen d = (\<exists>p. d ''propostas_aprovadas'' = Some (JStr p) \<and> p \<noteq> [])"

definition view_invariant :: "system \<Rightarrow> bool" where
  "view_invariant c =
    ((view (ui c) = ''upload'' \<and> inflight c = []
        \<and> sessionData (ui c) = sessionData initial_state) \<or>
     (view (ui c) = ''modulo1'' \<and> (inflight c = [HUpload] \<or> inflight c = [HTextUpload])
        \<and> sessionData (ui c) = sessionData initial_state) \<or>
     (view (ui c) = ''review1'' \<and> inflight c = []
        \<and> untouched (sessionData (ui c)) (written HModulo2 @ written HModulo3a)) \<or>
     (view (ui c) = ''modulo2'' \<and> inflight c = [HModulo2]
        \<and> untouched (sessionData (ui c)) (written HModulo2 @ written HModulo3a)) \<or>
     (view (ui c) = ''review2'' \<and> inflight c = []
        \<and> untouched (sessionData (ui c)) (written HModulo3a)) \<or>
     (view (ui c) = ''modulo3a'' \<and> inflight c = [HModulo3a]
        \<and> untouched (sessionData (ui c)) (written HModulo3a)) \<or>
     (view (ui c) = ''review3a'' \<and> inflight c = []) \<or>
     (view (ui c) = ''modulo3b'' \<and> inflight c = [HModulo3b] \<and> chosen (sessionData (ui c))) \<or>
     (view (ui c) = ''review3b'' \<and> inflight c = [] \<and> chosen (sessionData (ui c))) \<or>
     (view (ui c) = ''modulo4'' \<and> inflight c = [HModulo4] \<and> chosen (sessionData (ui c))) \<or>
     (view (ui c) = ''final'' \<and> inflight c = []) \<or>
     (view (ui c) = ''error'' \<and> inflight c = []))"

subsection \<open>Sample runs\<close>

text \<open>Successful responses of the five modules; the one of module 3B has no notice.\<close>

definition report_response :: response where
  "report_response =
     Response True (Parsed (JObj [(''relatorio_descoberta'', JStr ''Relatorio'')]))"

definition as_is_response :: response where
  "as_is_response =
     Response True (Parsed (JObj
       [(''bpmn_xml_as_is'', JStr ''<as-is/>''),
        (''bpmn_validation'', JObj [(''valid'', JBool True)]),
        (''aviso_bizagi'', JStr ''Aviso'')]))"

definition consulting_response :: response where
  "consulting_response = Response True (Parsed (JObj [(''consultoria'', JStr ''Propostas'')]))"

definition to_be_response :: response where
  "to_be_response =
     Response True (Parsed (JObj
       [(''bpmn_xml_to_be'', JStr ''<to-be/>''),
        (''bpmn_validation'', JObj [(''valid'', JBool True)])]))"

definition to_be_response_with_notice :: response where
  "to_be_response_with_notice =
     Response True (Parsed (JObj
       [(''bpmn_xml_to_be'', JStr ''<to-be/>''),
        (''bpmn_validation'', JNull),
        (''aviso_bizagi'', JStr ''Novo aviso'')]))"

definition pop_response :: response where
  "pop_response = Response True (Parsed (JObj [(''pop_texto'', JStr ''POP'')]))"

text \<open>An audio file is uploaded; module 1 answers with a report.\<close>

definition after_upload :: system where
  "after_upload = step (User (Upload ''audio'')) initial_system"

definition after_report :: system where
  "after_report = step (Settle 0 report_response) after_upload"

text \<open>The run goes on: module 2, module 3A and module 3B are approved and answer.\<close>

definition after_as_is :: system where
  "after_as_is = step (Settle 0 as_is_response) (step (User ApproveModulo2) after_report)"

definition after_consulting :: system where
  "after_consulting =
     step (Settle 0 consulting_response) (step (User ApproveModulo3a) after_as_is)"

definition after_to_be :: system where
  "after_to_be =
     step (Settle 0 to_be_response) (step (User (ApproveModulo3b ''todas'')) after_consulting)"

text \<open>
  Not a run of the page: \<open>handleReset\<close> is invoked while the call of module 1 is in
  flight, and then the call settles.
\<close>

definition after_reset :: system where
  "after_reset = step (User Reset) after_upload"

definition after_stale_report :: system where
  "after_stale_report = step (Settle 0 report_response) after_reset"

text \<open>
  A state in view \<open>review3a\<close>, and a state of \<open>App\<close> in view \<open>modulo3b\<close> that holds a
  notice of module 2.
\<close>

definition at_review3a :: system where
  "at_review3a =
     \<lparr> ui = \<lparr> view = ''review3a'', error = '''',
              sessionData =
                (sessionData initial_state)
                  (''relatorio_descoberta'' \<mapsto> JStr ''Relatorio'',
                   ''bpmn_xml_as_is'' \<mapsto> JStr ''<as-is/>'',
                   ''aviso_bizagi'' \<mapsto> JStr ''Aviso'',
                   ''consultoria'' \<mapsto> JStr ''Propostas'') \<rparr>,
       inflight = [], sent = [] \<rparr>"

definition with_notice :: app_state where
  "with_notice =
     \<lparr> view = ''modulo3b'', error = '''',
       sessionData =
         (sessionData initial_state)
           (''relatorio_descoberta'' \<mapsto> JStr ''Relatorio'',
            ''aviso_bizagi'' \<mapsto> JStr ''Aviso'',
            ''propostas_aprovadas'' \<mapsto> JStr ''todas'') \<rparr>"

text \<open>
  Module 2 is approved from \<open>after_report\<close>, and the server answers with status 500 and
  the plain text \<open>Internal Server Error\<close>, which \<open>res.json()\<close> rejects.
\<close>

definition plain_text_error :: response where
  "plain_text_error = Response False (Unparseable ''Unexpected token I in JSON at position 0'')"

definition after_plain_text_error :: system where
  "after_plain_text_error =
     step (Settle 0 plain_text_error) (step (User ApproveModulo2) after_report)"

section \<open>Basic facts about the handlers\<close>

lemmas call_defs =
  handleUpload_call_def handleTextUpload_call_def handleModulo2_call_def
  handleModulo3a_call_def handleModulo3b_call_def handleModulo4_call_def

lemmas settle_defs =
  handleUpload_settle_def handleTextUpload_settle_def handleModulo2_settle_def
  handleModulo3a_settle_def handleModulo3b_settle_def handleModulo4_settle_def

lemma handleReset_initial: "handleReset s = initial_state"
  by (simp add: handleReset_def initial_state_def)

lemma js_trim_nonempty: "js_trim p \<noteq> [] \<Longrightarrow> p \<noteq> []"
  by (auto simp: js_trim_def)

lemma get_prop_defined: "v \<noteq> JNull \<Longrightarrow> v \<noteq> JUndefined \<Longrightarrow> \<exists>x. get_prop v p = Inr x"
  by (cases v) auto

text \<open>A failing call ends in the \<open>catch\<close> block, whichever handler issued it.\<close>

lemma await_json_fails:
  assumes "call_fails r"
  shows "(\<exists>msg. await_json d r = Inl msg) \<or> await_json d r = Inr JNull
    \<or> await_json d r = Inr JUndefined"
proof (cases r)
  case (NetworkError msg)
  then show ?thesis by (simp add: await_json_def)
next
  case (Response ok b)
  with assms show ?thesis
    by (cases b) (auto simp: await_json_def split: sum.splits)
qed

lemma settle_fails:
  assumes "call_fails r"
  shows "\<exists>msg. settle h r s = catch_error msg s"
  using await_json_fails[OF assms, of "erro_no_modulo (modulo_label h)"]
  by (cases h) (auto simp: settle_defs)

text \<open>
  A call that does not fail is a response that is \<open>ok\<close> with a parsed body other than
  \<open>null\<close>; the handler then sets its review view and writes only its own properties.
\<close>

lemma await_json_ok:
  assumes "\<not> call_fails r"
  shows "\<exists>v. r = Response True (Parsed v) \<and> await_json d r = Inr v \<and> v \<noteq> JNull \<and> v \<noteq> JUndefined"
proof (cases r)
  case (NetworkError msg)
  with assms show ?thesis by simp
next
  case (Response ok b)
  with assms show ?thesis
    by (cases b) (auto simp: await_json_def)
qed

lemma settle_ok_frame:
  assumes "\<not> call_fails r"
  shows "view (settle h r s) = review_view h \<and>
     (\<forall>k. k \<notin> set (written h) \<longrightarrow> sessionData (settle h r s) k = sessionData s k)"
proof -
  obtain v where v: "r = Response True (Parsed v)" "v \<noteq> JNull" "v \<noteq> JUndefined"
    using await_json_ok[OF assms] by blast
  have g: "\<exists>x. get_prop v p = Inr x" for p
    using v get_prop_defined by blast
  show ?thesis
    unfolding v(1)
    using g[of "''relatorio_descoberta''"] g[of "''bpmn_xml_as_is''"] g[of "''bpmn_validation''"]
      g[of "''aviso_bizagi''"] g[of "''consultoria''"] g[of "''bpmn_xml_to_be''"]
      g[of "''pop_texto''"]
    by (cases h) (auto simp: settle_defs await_json_def updateSession_def)
qed

lemma settle_ok_view: "\<not> call_fails r \<Longrightarrow> view (settle h r s) = review_view h"
  using settle_ok_frame by blast

lemma call_fails_iff_error_view: "call_fails r \<longleftrightarrow> view (settle h r s) = ''error''"
proof
  assume "call_fails r"
  then obtain msg where "settle h r s = catch_error msg s"
    using settle_fails by blast
  then show "view (settle h r s) = ''error''"
    by (simp add: catch_error_def)
next
  assume e: "view (settle h r s) = ''error''"
  show "call_fails r"
  proof (rule ccontr)
    assume "\<not> call_fails r"
    then have "view (settle h r s) = review_view h"
      by (rule settle_ok_view)
    with e show False by (cases h) simp_all
  qed
qed

text \<open>
  A response that is not \<open>ok\<close> and whose body parses to a value other than \<open>null\<close>: the
  message is that of \<open>new Error(detail)\<close> if the body's \<open>detail\<close> is truthy (the detail
  itself when it is a string), and the handler's default otherwise.
\<close>

lemma settle_not_ok_detail:
  assumes "get_prop err ''detail'' = Inr d"
  shows "settle h (Response False (Parsed err)) s =
     catch_error (if truthy d then new_Error_message d else erro_no_modulo (modulo_label h)) s"
  using assms
  by (cases h) (simp_all add: settle_defs await_json_def js_or_def new_Error_message_def)

text \<open>The steps of the transition system on view, calls in flight and requests sent.\<close>

lemma step_user:
  "view (ui (step (User (Upload f)) c)) = ''modulo1''"
  "view (ui (step (User (TextUpload t)) c)) = ''modulo1''"
  "view (ui (step (User ApproveModulo2) c)) = ''modulo2''"
  "view (ui (step (User ApproveModulo3a) c)) = ''modulo3a''"
  "view (ui (step (User (ApproveModulo3b p)) c)) = ''modulo3b''"
  "view (ui (step (User ApproveModulo4) c)) = ''modulo4''"
  "inflight (step (User (Upload f)) c) = inflight c @ [HUpload]"
  "inflight (step (User (TextUpload t)) c) = inflight c @ [HTextUpload]"
  "inflight (step (User ApproveModulo2) c) = inflight c @ [HModulo2]"
  "inflight (step (User ApproveModulo3a) c) = inflight c @ [HModulo3a]"
  "inflight (step (User (ApproveModulo3b p)) c) = inflight c @ [HModulo3b]"
  "inflight (step (User ApproveModulo4) c) = inflight c @ [HModulo4]"
  "map endpoint (sent (step (User (Upload f)) c)) = map endpoint (sent c) @ [''/api/modulo1'']"
  "map endpoint (sent (step (User (TextUpload t)) c)) =
     map endpoint (sent c) @ [''/api/modulo1-text'']"
  "map endpoint (sent (step (User ApproveModulo2) c)) = map endpoint (sent c) @ [''/api/modulo2'']"
  "map endpoint (sent (step (User ApproveModulo3a) c)) =
     map endpoint (sent c) @ [''/api/modulo3a'']"
  "map endpoint (sent (step (User (ApproveModulo3b p)) c)) =
     map endpoint (sent c) @ [''/api/modulo3b'']"
  "map endpoint (sent (step (User ApproveModulo4) c)) = map endpoint (sent c) @ [''/api/modulo4'']"
  by (simp_all add: issue_def call_defs updateSession_def)

lemma step_settle_ok:
  assumes "inflight c = [h]" and "\<not> call_fails r"
  shows "view (ui (step (Settle 0 r) c)) = review_view h"
    and "inflight (step (Settle 0 r) c) = []"
    and "sent (step (Settle 0 r) c) = sent c"
  using assms settle_ok_view[of r h "ui c"] by simp_all

section \<open>The invariant of the reachable states\<close>

lemma view_invariant_init: "view_invariant initial_system"
  by (simp add: view_invariant_def initial_system_def initial_state_def)

lemma view_invariant_user:
  "view_invariant c \<Longrightarrow> offered a (ui c) \<Longrightarrow> view_invariant (step (User a) c)"
  by (cases a)
    (auto simp: view_invariant_def issue_def call_defs handleReset_def initial_state_def
       updateSession_def chosen_def dest: js_trim_nonempty)

lemma view_invariant_settle:
  assumes "view_invariant c" and "i < length (inflight c)"
  shows "view_invariant (step (Settle i r) c)"
proof -
  obtain h where h: "inflight c = [h]" "view (ui c) = processing_view h"
    using assms by (auto simp: view_invariant_def)
  then have i: "i = 0"
    using assms(2) by simp
  have st: "ui (step (Settle i r) c) = settle h r (ui c)" "inflight (step (Settle i r) c) = []"
    using h i by simp_all
  show ?thesis
  proof (cases "call_fails r")
    case True
    then obtain msg where "settle h r (ui c) = catch_error msg (ui c)"
      using settle_fails by blast
    then show ?thesis
      using st by (simp add: view_invariant_def catch_error_def)
  next
    case False
    note fr = settle_ok_frame[OF False, of h "ui c"]
    show ?thesis
    proof (cases h)
      case HUpload
      then show ?thesis
        using fr st h assms(1) by (auto simp: view_invariant_def untouched_def initial_state_def)
    next
      case HTextUpload
      then show ?thesis
        using fr st h assms(1) by (auto simp: view_invariant_def untouched_def initial_state_def)
    next
      case HModulo2
      then show ?thesis
        using fr st h assms(1) by (auto simp: view_invariant_def untouched_def)
    next
      case HModulo3a
      then show ?thesis
        using fr st h assms(1) by (auto simp: view_invariant_def)
    next
      case HModulo3b
      then show ?thesis
        using fr st h assms(1) by (auto simp: view_invariant_def chosen_def)
    next
      case HModulo4
      then show ?thesis
        using fr st h assms(1) by (auto simp: view_invariant_def)
    qed
  qed
qed

lemma reachable_view_invariant: "reachable c \<Longrightarrow> view_invariant c"
proof (induction rule: reachable.induct)
  case init
  show ?case by (rule view_invariant_init)
next
  case (step c e)
  then show ?case
    by (cases e) (auto intro: view_invariant_user view_invariant_settle simp del: step.simps)
qed

section \<open>Facts about the sample runs\<close>

lemma after_upload_eq:
  "after_upload =
     \<lparr> ui = initial_state\<lparr>view := ''modulo1''\<rparr>, inflight = [HUpload],
       sent = [Post ''/api/modulo1'' (FormData [(''file'', ''audio'')])] \<rparr>"
  by (simp add: after_upload_def initial_system_def initial_state_def issue_def call_defs)

lemma after_report_eq:
  "after_report =
     \<lparr> ui = \<lparr> view = ''review1'', error = '''',
              sessionData = (sessionData initial_state)(''relatorio_descoberta'' \<mapsto> JStr ''Relatorio'') \<rparr>,
       inflight = [],
       sent = [Post ''/api/modulo1'' (FormData [(''file'', ''audio'')])] \<rparr>"
  by (simp add: after_report_def after_upload_eq report_response_def settle_defs await_json_def
      updateSession_def initial_state_def)

lemma reachable_after_upload: "reachable after_upload"
  unfolding after_upload_def
  by (rule reachable.step[OF reachable.init]) (simp add: initial_system_def initial_state_def)

lemma reachable_after_report: "reachable after_report"
  unfolding after_report_def
  by (rule reachable.step[OF reachable_after_upload]) (simp add: after_upload_eq)

lemma after_as_is_eq:
  "after_as_is =
     \<lparr> ui = \<lparr> view = ''review2'', error = '''',
              sessionData =
                (sessionData initial_state)
                  (''relatorio_descoberta'' \<mapsto> JStr ''Relatorio'',
                   ''bpmn_xml_as_is'' \<mapsto> JStr ''<as-is/>'',
                   ''bpmn_validation_as_is'' \<mapsto> JObj [(''valid'', JBool True)],
                   ''aviso_bizagi'' \<mapsto> JStr ''Aviso'') \<rparr>,
       inflight = [],
       sent = [Post ''/api/modulo1'' (FormData [(''file'', ''audio'')]),
               Post ''/api/modulo2'' (Json [(''relatorio_descoberta'', JStr ''Relatorio'')])] \<rparr>"
  by (simp add: after_as_is_def after_report_eq as_is_response_def issue_def call_defs
      settle_defs await_json_def updateSession_def session_get_def initial_state_def)

lemma after_consulting_eq:
  "after_consulting =
     \<lparr> ui = \<lparr> view = ''review3a'', error = '''',
              sessionData =
                (sessionData initial_state)
                  (''relatorio_descoberta'' \<mapsto> JStr ''Relatorio'',
                   ''bpmn_xml_as_is'' \<mapsto> JStr ''<as-is/>'',
                   ''bpmn_validation_as_is'' \<mapsto> JObj [(''valid'', JBool True)],
                   ''aviso_bizagi'' \<mapsto> JStr ''Aviso'',
                   ''consultoria'' \<mapsto> JStr ''Propostas'') \<rparr>,
       inflight = [],
       sent = [Post ''/api/modulo1'' (FormData [(''file'', ''audio'')]),
               Post ''/api/modulo2'' (Json [(''relatorio_descoberta'', JStr ''Relatorio'')]),
               Post ''/api/modulo3a''
                 (Json [(''relatorio_descoberta'', JStr ''Relatorio''),
                        (''bpmn_xml_as_is'', JStr ''<as-is/>'')])] \<rparr>"
  by (simp add: after_consulting_def after_as_is_eq consulting_response_def issue_def call_defs
      settle_defs await_json_def updateSession_def session_get_def initial_state_def)

lemma after_to_be_session:
  "view (ui after_to_be) = ''review3b''"
  "inflight after_to_be = []"
  "sessionData (ui after_to_be) ''relatorio_descoberta'' = Some (JStr ''Relatorio'')"
  "sessionData (ui after_to_be) ''bpmn_xml_to_be'' = Some (JStr ''<to-be/>'')"
  "sessionData (ui after_to_be) ''aviso_bizagi'' = Some JUndefined"
  by (simp_all add: after_to_be_def after_consulting_eq to_be_response_def issue_def call_defs
      settle_defs await_json_def updateSession_def session_get_def initial_state_def)

lemma reachable_after_as_is: "reachable after_as_is"
proof -
  have "reachable (step (User ApproveModulo2) after_report)"
    by (rule reachable.step[OF reachable_after_report]) (simp add: after_report_eq)
  then show ?thesis
    unfolding after_as_is_def
    by (rule reachable.step) (simp add: after_report_eq issue_def)
qed

lemma reachable_after_consulting: "reachable after_consulting"
proof -
  have "reachable (step (User ApproveModulo3a) after_as_is)"
    by (rule reachable.step[OF reachable_after_as_is]) (simp add: after_as_is_eq)
  then show ?thesis
    unfolding after_consulting_def
    by (rule reachable.step) (simp add: after_as_is_eq issue_def)
qed

lemma reachable_after_to_be: "reachable after_to_be"
proof -
  have "reachable (step (User (ApproveModulo3b ''todas'')) after_consulting)"
    by (rule reachable.step[OF reachable_after_consulting])
      (simp add: after_consulting_eq js_trim_def js_space_def)
  then show ?thesis
    unfolding after_to_be_def
    by (rule reachable.step) (simp add: after_consulting_eq issue_def)
qed

lemma after_report_not_initial: "sessionData (ui after_report) \<noteq> sessionData initial_state"
proof
  assume "sessionData (ui after_report) = sessionData initial_state"
  then have "sessionData (ui after_report) ''relatorio_descoberta'' =
      sessionData initial_state ''relatorio_descoberta''"
    by simp
  then show False
    by (simp add: after_report_eq initial_state_def)
qed

section \<open>The linear run\<close>

text \<open>
  Claim C1. Start in view \<open>upload\<close> with no call in flight. Submit an audio file or a
  text, and approve four times, each call succeeding before the next action. Then the
  views visited are \<open>upload\<close>, \<open>modulo1\<close>, \<open>review1\<close>, \<open>modulo2\<close>, \<open>review2\<close>, \<open>modulo3a\<close>,
  \<open>review3a\<close>, \<open>modulo3b\<close>, \<open>review3b\<close>, \<open>modulo4\<close>, \<open>final\<close>, in this order and with none
  left out; one call is in flight in each processing view and none in the others; and
  the requests sent are one to each of the five endpoints, in the order of the modules.
\<close>

theorem linear_run_visits_every_state:
  assumes idle: "view (ui c) = ''upload''" "inflight c = []"
    and submit: "submit = Upload f \<or> submit = TextUpload t"
    and ok: "\<not> call_fails r1" "\<not> call_fails r2" "\<not> call_fails r3" "\<not> call_fails r4"
      "\<not> call_fails r5"
  shows "map (\<lambda>c. view (ui c)) (trace c (linear_run submit p r1 r2 r3 r4 r5)) =
      [''upload'', ''modulo1'', ''review1'', ''modulo2'', ''review2'', ''modulo3a'', ''review3a'',
       ''modulo3b'', ''review3b'', ''modulo4'', ''final'']
    \<and> map (\<lambda>c. length (inflight c)) (trace c (linear_run submit p r1 r2 r3 r4 r5)) =
      [0, 1, 0, 1, 0, 1, 0, 1, 0, 1, 0]
    \<and> map endpoint (sent (last (trace c (linear_run submit p r1 r2 r3 r4 r5)))) =
      map endpoint (sent c) @
      [if submit = Upload f then ''/api/modulo1'' else ''/api/modulo1-text'',
       ''/api/modulo2'', ''/api/modulo3a'', ''/api/modulo3b'', ''/api/modulo4'']"
proof -
  define c1 where "c1 = step (User submit) c"
  define c2 where "c2 = step (Settle 0 r1) c1"
  define c3 where "c3 = step (User ApproveModulo2) c2"
  define c4 where "c4 = step (Settle 0 r2) c3"
  define c5 where "c5 = step (User ApproveModulo3a) c4"
  define c6 where "c6 = step (Settle 0 r3) c5"
  define c7 where "c7 = step (User (ApproveModulo3b p)) c6"
  define c8 where "c8 = step (Settle 0 r4) c7"
  define c9 where "c9 = step (User ApproveModulo4) c8"
  define c10 where "c10 = step (Settle 0 r5) c9"
  have tr: "trace c (linear_run submit p r1 r2 r3 r4 r5) =
      [c, c1, c2, c3, c4, c5, c6, c7, c8, c9, c10]"
    unfolding linear_run_def c1_def c2_def c3_def c4_def c5_def c6_def c7_def c8_def c9_def
      c10_def
    by (simp only: trace.simps)
  obtain h where 1: "view (ui c1) = ''modulo1''" "inflight c1 = [h]"
    and h: "h = HUpload \<or> h = HTextUpload"
    and s1: "map endpoint (sent c1) = map endpoint (sent c) @
      [if submit = Upload f then ''/api/modulo1'' else ''/api/modulo1-text'']"
    using submit idle(2) unfolding c1_def by (auto simp: step_user simp del: step.simps)
  have 2: "view (ui c2) = ''review1''" "inflight c2 = []" "sent c2 = sent c1"
    using step_settle_ok[OF 1(2) ok(1)] h unfolding c2_def by auto
  have 3: "view (ui c3) = ''modulo2''" "inflight c3 = [HModulo2]"
    "map endpoint (sent c3) = map endpoint (sent c2) @ [''/api/modulo2'']"
    using 2(2) unfolding c3_def by (simp_all add: step_user del: step.simps)
  have 4: "view (ui c4) = ''review2''" "inflight c4 = []" "sent c4 = sent c3"
    using step_settle_ok[OF 3(2) ok(2)] unfolding c4_def by auto
  have 5: "view (ui c5) = ''modulo3a''" "inflight c5 = [HModulo3a]"
    "map endpoint (sent c5) = map endpoint (sent c4) @ [''/api/modulo3a'']"
    using 4(2) unfolding c5_def by (simp_all add: step_user del: step.simps)
  have 6: "view (ui c6) = ''review3a''" "inflight c6 = []" "sent c6 = sent c5"
    using step_settle_ok[OF 5(2) ok(3)] unfolding c6_def by auto
  have 7: "view (ui c7) = ''modulo3b''" "inflight c7 = [HModulo3b]"
    "map endpoint (sent c7) = map endpoint (sent c6) @ [''/api/modulo3b'']"
    using 6(2) unfolding c7_def by (simp_all add: step_user del: step.simps)
  have 8: "view (ui c8) = ''review3b''" "inflight c8 = []" "sent c8 = sent c7"
    using step_settle_ok[OF 7(2) ok(4)] unfolding c8_def by auto
  have 9: "view (ui c9) = ''modulo4''" "inflight c9 = [HModulo4]"
    "map endpoint (sent c9) = map endpoint (sent c8) @ [''/api/modulo4'']"
    using 8(2) unfolding c9_def by (simp_all add: step_user del: step.simps)
  have 10: "view (ui c10) = ''final''" "inflight c10 = []" "sent c10 = sent c9"
    using step_settle_ok[OF 9(2) ok(5)] unfolding c10_def by auto
  show ?thesis
    unfolding tr using idle 1 2 3 4 5 6 7 8 9 10 s1 by simp
qed

theorem linear_run_visits_every_state_witness:
  "view (ui initial_system) = ''upload'' \<and> inflight initial_system = []
   \<and> \<not> call_fails report_response \<and> \<not> call_fails as_is_response
   \<and> \<not> call_fails consulting_response \<and> \<not> call_fails to_be_response
   \<and> \<not> call_fails pop_response
   \<and> map (\<lambda>c. view (ui c))
       (trace initial_system
         (linear_run (Upload ''audio'') ''aprovo 1 e 3'' report_response as_is_response
            consulting_response to_be_response pop_response)) =
      [''upload'', ''modulo1'', ''review1'', ''modulo2'', ''review2'', ''modulo3a'', ''review3a'',
       ''modulo3b'', ''review3b'', ''modulo4'', ''final'']
   \<and> map endpoint
       (sent (last (trace initial_system
         (linear_run (Upload ''audio'') ''aprovo 1 e 3'' report_response as_is_response
            consulting_response to_be_response pop_response)))) =
      [''/api/modulo1'', ''/api/modulo2'', ''/api/modulo3a'', ''/api/modulo3b'', ''/api/modulo4'']"
proof -
  have idle: "view (ui initial_system) = ''upload''" "inflight initial_system = []"
    by (simp_all add: initial_system_def initial_state_def)
  have ok: "\<not> call_fails report_response" "\<not> call_fails as_is_response"
    "\<not> call_fails consulting_response" "\<not> call_fails to_be_response"
    "\<not> call_fails pop_response"
    by (simp_all add: report_response_def as_is_response_def consulting_response_def
        to_be_response_def pop_response_def)
  have s: "sent initial_system = []"
    by (simp add: initial_system_def)
  show ?thesis
    using idle ok s
      linear_run_visits_every_state[OF idle _ ok, of "Upload ''audio''" "''audio''" "''''"
        "''aprovo 1 e 3''"]
    by simp
qed

section \<open>Failing calls\<close>

text \<open>
  Claim C2. Let any handler but \<open>handleReset\<close> issue its call, and let that call fail (the
  \<open>fetch\<close> rejects, the response is not \<open>ok\<close>, or its body cannot be read). Then the
  view is \<open>error\<close>, and \<open>sessionData\<close> is what it was when the call was issued: the data
  before the handler ran, with \<open>propostas_aprovadas\<close> set in the case of module 3B, whose
  handler merges the proposals before it issues the call.
\<close>

theorem failed_call_keeps_session:
  assumes "a \<noteq> Reset" and "call_fails r"
  shows "view (ui (step (Settle (length (inflight c)) r) (step (User a) c))) = ''error''
    \<and> sessionData (ui (step (Settle (length (inflight c)) r) (step (User a) c))) =
        sessionData (ui (step (User a) c))
    \<and> inflight (step (Settle (length (inflight c)) r) (step (User a) c)) = inflight c
    \<and> sessionData (ui (step (User a) c)) =
        (case a of
           ApproveModulo3b p \<Rightarrow> (sessionData (ui c))(''propostas_aprovadas'' \<mapsto> JStr p)
         | _ \<Rightarrow> sessionData (ui c))"
proof -
  obtain h where h: "inflight (step (User a) c) = inflight c @ [h]"
    using assms(1) by (cases a) (simp_all add: issue_def)
  obtain msg where
    "settle h r (ui (step (User a) c)) = catch_error msg (ui (step (User a) c))"
    using settle_fails[OF assms(2)] by blast
  then have 1: "ui (step (Settle (length (inflight c)) r) (step (User a) c)) =
      catch_error msg (ui (step (User a) c))"
    and 2: "inflight (step (Settle (length (inflight c)) r) (step (User a) c)) = inflight c"
    using h by simp_all
  have 3: "sessionData (ui (step (User a) c)) =
      (case a of
         ApproveModulo3b p \<Rightarrow> (sessionData (ui c))(''propostas_aprovadas'' \<mapsto> JStr p)
       | _ \<Rightarrow> sessionData (ui c))"
    using assms(1) by (cases a) (simp_all add: issue_def call_defs updateSession_def)
  show ?thesis
    using 1 2 3 by (simp add: catch_error_def)
qed

theorem failed_call_keeps_session_witness:
  "ApproveModulo2 \<noteq> Reset \<and> call_fails (NetworkError ''Failed to fetch'')
   \<and> view (ui (step (Settle 0 (NetworkError ''Failed to fetch''))
        (step (User ApproveModulo2) after_report))) = ''error''
   \<and> sessionData (ui (step (Settle 0 (NetworkError ''Failed to fetch''))
        (step (User ApproveModulo2) after_report))) = sessionData (ui after_report)"
proof -
  have 1: "ApproveModulo2 \<noteq> Reset" "call_fails (NetworkError ''Failed to fetch'')"
    by simp_all
  have 2: "length (inflight after_report) = 0"
    by (simp add: after_report_eq)
  show ?thesis
    using 1 failed_call_keeps_session[OF 1, of after_report] unfolding 2 by simp
qed

text \<open>
  Claim C3. \<open>handleModulo3b(p)\<close> merges \<open>propostas_aprovadas = p\<close> into \<open>sessionData\<close>
  before its call settles: right after the invocation the view is \<open>modulo3b\<close>, the call is
  in flight and the property is already \<open>p\<close>. The request goes to \<open>/api/modulo3b\<close> and
  carries \<open>relatorio_descoberta\<close>, \<open>consultoria\<close> and \<open>propostas_aprovadas = p\<close>. If the
  call then fails, the view is \<open>error\<close> and the property is still \<open>p\<close>. This holds for
  every text \<open>p\<close>, so for every non-empty one, and from every state, so from \<open>review3a\<close>.
\<close>

theorem proposals_merged_before_call_settles:
  assumes "call_fails r"
  shows "sessionData (ui (step (User (ApproveModulo3b p)) c)) ''propostas_aprovadas'' =
        Some (JStr p)
   \<and> view (ui (step (User (ApproveModulo3b p)) c)) = ''modulo3b''
   \<and> inflight (step (User (ApproveModulo3b p)) c) = inflight c @ [HModulo3b]
   \<and> sent (step (User (ApproveModulo3b p)) c) = sent c @
        [Post ''/api/modulo3b''
          (Json [(''relatorio_descoberta'',
                    session_get (sessionData (ui c)) ''relatorio_descoberta''),
                 (''consultoria'', session_get (sessionData (ui c)) ''consultoria''),
                 (''propostas_aprovadas'', JStr p)])]
   \<and> view (ui (step (Settle (length (inflight c)) r) (step (User (ApproveModulo3b p)) c))) =
        ''error''
   \<and> sessionData (ui (step (Settle (length (inflight c)) r)
        (step (User (ApproveModulo3b p)) c))) ''propostas_aprovadas'' = Some (JStr p)"
proof -
  obtain msg where "settle HModulo3b r (ui (step (User (ApproveModulo3b p)) c))
      = catch_error msg (ui (step (User (ApproveModulo3b p)) c))"
    using settle_fails[OF assms] by blast
  then show ?thesis
    by (simp add: issue_def handleModulo3b_call_def updateSession_def catch_error_def)
qed

theorem proposals_merged_before_call_settles_witness:
  "call_fails (Response False (Parsed (JObj [(''detail'', JStr ''timeout'')])))
   \<and> view (ui at_review3a) = ''review3a''
   \<and> sessionData (ui (step (User (ApproveModulo3b ''aprovo 1 e 3'')) at_review3a))
        ''propostas_aprovadas'' = Some (JStr ''aprovo 1 e 3'')
   \<and> sent (step (User (ApproveModulo3b ''aprovo 1 e 3'')) at_review3a) =
        [Post ''/api/modulo3b''
          (Json [(''relatorio_descoberta'', JStr ''Relatorio''),
                 (''consultoria'', JStr ''Propostas''),
                 (''propostas_aprovadas'', JStr ''aprovo 1 e 3'')])]
   \<and> view (ui (step (Settle 0 (Response False (Parsed (JObj [(''detail'', JStr ''timeout'')]))))
        (step (User (ApproveModulo3b ''aprovo 1 e 3'')) at_review3a))) = ''error''
   \<and> sessionData (ui (step (Settle 0 (Response False (Parsed (JObj [(''detail'', JStr ''timeout'')]))))
        (step (User (ApproveModulo3b ''aprovo 1 e 3'')) at_review3a)))
        ''propostas_aprovadas'' = Some (JStr ''aprovo 1 e 3'')"
proof -
  have 1: "call_fails (Response False (Parsed (JObj [(''detail'', JStr ''timeout'')])))"
    by simp
  have 2: "length (inflight at_review3a) = 0" "sent at_review3a = []"
    "view (ui at_review3a) = ''review3a''"
    "session_get (sessionData (ui at_review3a)) ''relatorio_descoberta'' = JStr ''Relatorio''"
    "session_get (sessionData (ui at_review3a)) ''consultoria'' = JStr ''Propostas''"
    by (simp_all add: at_review3a_def session_get_def)
  show ?thesis
    using 1 proposals_merged_before_call_settles[OF 1, of "''aprovo 1 e 3''" at_review3a]
    by (simp add: 2 del: step.simps)
qed

section \<open>Reset and calls in flight\<close>

text \<open>
  The rendered page offers no action while a call is in flight: in every reachable state
  in which a user action is offered, no call is in flight; and a call that settles is the
  only one in flight and settles in the processing view its own handler set.
\<close>

lemma no_action_offered_while_call_in_flight:
  assumes "reachable c" and "enabled e c"
  shows "case e of
           User a \<Rightarrow> inflight c = []
         | Settle i r \<Rightarrow>
             inflight c = [inflight c ! i] \<and> view (ui c) = processing_view (inflight c ! i)"
proof (cases e)
  case (User a)
  then show ?thesis
    using reachable_view_invariant[OF assms(1)] assms(2)
    by (cases a) (auto simp: view_invariant_def)
next
  case (Settle i r)
  then show ?thesis
    using reachable_view_invariant[OF assms(1)] assms(2)
    by (auto simp: view_invariant_def)
qed




text \<open>
  The handlers themselves do not tell a late response from a current one. Were
  \<open>handleReset\<close> invoked while the call of module 1 is in flight, the handler suspended
  at its \<open>fetch\<close> would resume when the call settles, merge the report and set view
  \<open>review1\<close>. No run of the page reaches that state.
\<close>

lemma handler_resumes_after_untimely_reset:
  "view (ui after_upload) = ''modulo1'' \<and> inflight after_upload = [HUpload]
   \<and> ui after_reset = initial_state \<and> inflight after_reset = [HUpload]
   \<and> view (ui after_stale_report) = ''review1''
   \<and> sessionData (ui after_stale_report) ''relatorio_descoberta'' = Some (JStr ''Relatorio'')
   \<and> \<not> reachable after_reset"
proof -
  have 1: "view (ui after_upload) = ''modulo1''" "inflight after_upload = [HUpload]"
    by (simp_all add: after_upload_eq)
  have 2: "ui after_reset = initial_state" "inflight after_reset = [HUpload]"
    by (simp_all add: after_reset_def after_upload_eq handleReset_initial)
  have 3: "view (ui after_stale_report) = ''review1''"
    "sessionData (ui after_stale_report) ''relatorio_descoberta'' = Some (JStr ''Relatorio'')"
    using 2
    by (simp_all add: after_stale_report_def report_response_def settle_defs await_json_def
        updateSession_def)
  have "\<not> view_invariant after_reset"
    using 2 by (simp add: view_invariant_def initial_state_def)
  then have 4: "\<not> reachable after_reset"
    using reachable_view_invariant by blast
  show ?thesis
    using 1 2 3 4 by simp
qed

section \<open>The session store\<close>

text \<open>
  Claim C5. \<open>updateSession(u)\<close> replaces exactly the properties present in \<open>u\<close> by their
  values in \<open>u\<close> and leaves every other property of \<open>sessionData\<close> (and \<open>view\<close> and
  \<open>error\<close>) as it was. In particular, merging \<open>{relatorio_descoberta: x}\<close> after
  \<open>{bpmn_xml_as_is: y}\<close> gives a record that holds both.
\<close>

theorem updateSession_merges:
  "(k \<in> dom u \<longrightarrow> sessionData (updateSession u s) k = u k)
   \<and> (k' \<notin> dom u \<longrightarrow> sessionData (updateSession u s) k' = sessionData s k')
   \<and> view (updateSession u s) = view s \<and> error (updateSession u s) = error s
   \<and> sessionData (updateSession [''relatorio_descoberta'' \<mapsto> x]
        (updateSession [''bpmn_xml_as_is'' \<mapsto> y] s)) ''relatorio_descoberta'' = Some x
   \<and> sessionData (updateSession [''relatorio_descoberta'' \<mapsto> x]
        (updateSession [''bpmn_xml_as_is'' \<mapsto> y] s)) ''bpmn_xml_as_is'' = Some y"
  by (auto simp: updateSession_def map_add_def split: option.splits)

theorem updateSession_merges_witness:
  "''relatorio_descoberta'' \<in> dom [''relatorio_descoberta'' \<mapsto> JStr ''X'']
   \<and> ''bpmn_xml_as_is'' \<notin> dom [''relatorio_descoberta'' \<mapsto> JStr ''X'']
   \<and> sessionData (updateSession [''relatorio_descoberta'' \<mapsto> JStr ''X'']
        (updateSession [''bpmn_xml_as_is'' \<mapsto> JStr ''Y''] initial_state))
        ''relatorio_descoberta'' = Some (JStr ''X'')
   \<and> sessionData (updateSession [''relatorio_descoberta'' \<mapsto> JStr ''X'']
        (updateSession [''bpmn_xml_as_is'' \<mapsto> JStr ''Y''] initial_state))
        ''bpmn_xml_as_is'' = Some (JStr ''Y'')"
proof -
  have 1: "''relatorio_descoberta'' \<in> dom [''relatorio_descoberta'' \<mapsto> JStr ''X'']"
    "''bpmn_xml_as_is'' \<notin> dom [''relatorio_descoberta'' \<mapsto> JStr ''X'']"
    by simp_all
  have 2: "sessionData (updateSession [''bpmn_xml_as_is'' \<mapsto> JStr ''Y''] initial_state)
      ''bpmn_xml_as_is'' = Some (JStr ''Y'')"
    by (simp add: updateSession_def)
  show ?thesis
    using 1 2
      updateSession_merges[of "''relatorio_descoberta''" "[''relatorio_descoberta'' \<mapsto> JStr ''X'']"
        "updateSession [''bpmn_xml_as_is'' \<mapsto> JStr ''Y''] initial_state" "''bpmn_xml_as_is''"]
    by simp
qed

text \<open>
  Claim C6. \<open>handleReset\<close>, from any state whatever, gives view \<open>upload\<close>, an empty
  \<open>error\<close> and the initial \<open>sessionData\<close> (every text property the empty string, both
  validation properties \<open>null\<close>). And in the reachable states nothing else empties the
  record: if \<open>sessionData\<close> differs from the initial record, it still differs after any
  offered action other than the reset and after any call that settles.
\<close>

theorem reset_restores_initial_state:
  "ui (step (User Reset) c) = initial_state
   \<and> (reachable c \<longrightarrow> enabled e c \<longrightarrow> e \<noteq> User Reset \<longrightarrow>
        sessionData (ui c) \<noteq> sessionData initial_state \<longrightarrow>
        sessionData (ui (step e c)) \<noteq> sessionData initial_state)"
proof (intro conjI impI)
  show "ui (step (User Reset) c) = initial_state"
    by (simp add: handleReset_initial)
next
  assume r: "reachable c" and en: "enabled e c" and ne: "e \<noteq> User Reset"
    and d: "sessionData (ui c) \<noteq> sessionData initial_state"
  have inv: "view_invariant c"
    using r by (rule reachable_view_invariant)
  show "sessionData (ui (step e c)) \<noteq> sessionData initial_state"
  proof (cases e)
    case (User a)
    show ?thesis
    proof (cases a)
      case (ApproveModulo3b p)
      then have "p \<noteq> []"
        using en User by (auto dest: js_trim_nonempty)
      then have "sessionData (ui (step e c)) ''propostas_aprovadas'' \<noteq>
          sessionData initial_state ''propostas_aprovadas''"
        using User ApproveModulo3b
        by (simp add: issue_def call_defs updateSession_def initial_state_def)
      then show ?thesis by metis
    qed (use ne d User in \<open>simp_all add: issue_def call_defs\<close>)
  next
    case (Settle i r)
    obtain h where h: "inflight c = [h]" "view (ui c) = processing_view h"
      using inv en Settle by (auto simp: view_invariant_def)
    then have st: "ui (step e c) = settle h r (ui c)"
      using Settle en by simp
    show ?thesis
    proof (cases "call_fails r")
      case True
      then obtain msg where "settle h r (ui c) = catch_error msg (ui c)"
        using settle_fails by blast
      then show ?thesis
        using st d by (simp add: catch_error_def)
    next
      case False
      note fr = settle_ok_frame[OF False, of h "ui c"]
      obtain k where k: "sessionData (ui c) k \<noteq> sessionData initial_state k"
        using d by (meson ext)
      have "chosen (sessionData (ui c)) \<and> ''propostas_aprovadas'' \<notin> set (written h)
          \<or> k \<notin> set (written h)"
        using inv h k by (cases h) (auto simp: view_invariant_def untouched_def)
      then show ?thesis
      proof
        assume ch: "chosen (sessionData (ui c)) \<and> ''propostas_aprovadas'' \<notin> set (written h)"
        then have "sessionData (ui (step e c)) ''propostas_aprovadas'' =
            sessionData (ui c) ''propostas_aprovadas''"
          using fr st by simp
        then have "sessionData (ui (step e c)) ''propostas_aprovadas'' \<noteq>
            sessionData initial_state ''propostas_aprovadas''"
          using ch by (auto simp: chosen_def initial_state_def)
        then show ?thesis by metis
      next
        assume "k \<notin> set (written h)"
        then have "sessionData (ui (step e c)) k \<noteq> sessionData initial_state k"
          using fr k st by simp
        then show ?thesis by metis
      qed
    qed
  qed
qed

theorem reset_restores_initial_state_witness:
  "reachable after_report \<and> enabled (User ApproveModulo2) after_report
   \<and> User ApproveModulo2 \<noteq> User Reset
   \<and> sessionData (ui after_report) \<noteq> sessionData initial_state
   \<and> sessionData (ui (step (User ApproveModulo2) after_report)) \<noteq> sessionData initial_state
   \<and> ui (step (User Reset) after_report) = initial_state"
proof -
  have 1: "enabled (User ApproveModulo2) after_report"
    by (simp add: after_report_eq)
  have 2: "User ApproveModulo2 \<noteq> User Reset"
    by simp
  show ?thesis
    using reachable_after_report 1 2 after_report_not_initial
      reset_restores_initial_state[of after_report "User ApproveModulo2"]
    by blast
qed

section \<open>What each request carries\<close>

text \<open>
  Claim C7. The approval of module 2 sends to \<open>/api/modulo2\<close> the object with the one
  property \<open>relatorio_descoberta\<close>; the approval of module 3A sends to \<open>/api/modulo3a\<close>
  the properties \<open>relatorio_descoberta\<close> and \<open>bpmn_xml_as_is\<close>; the approval of module 4
  sends to \<open>/api/modulo4\<close> the properties \<open>bpmn_xml_to_be\<close> and \<open>relatorio_descoberta\<close>.
  Each value is the one \<open>sessionData\<close> holds for that property when the handler is
  invoked (\<open>undefined\<close> if it holds none), and the object has no other property.
\<close>

theorem stage_requests_carry_their_fields:
  "sent (step (User ApproveModulo2) c) = sent c @
     [Post ''/api/modulo2''
        (Json [(''relatorio_descoberta'',
                  case sessionData (ui c) ''relatorio_descoberta'' of
                    None \<Rightarrow> JUndefined | Some v \<Rightarrow> v)])]
   \<and> sent (step (User ApproveModulo3a) c) = sent c @
     [Post ''/api/modulo3a''
        (Json [(''relatorio_descoberta'',
                  case sessionData (ui c) ''relatorio_descoberta'' of
                    None \<Rightarrow> JUndefined | Some v \<Rightarrow> v),
               (''bpmn_xml_as_is'',
                  case sessionData (ui c) ''bpmn_xml_as_is'' of
                    None \<Rightarrow> JUndefined | Some v \<Rightarrow> v)])]
   \<and> sent (step (User ApproveModulo4) c) = sent c @
     [Post ''/api/modulo4''
        (Json [(''bpmn_xml_to_be'',
                  case sessionData (ui c) ''bpmn_xml_to_be'' of
                    None \<Rightarrow> JUndefined | Some v \<Rightarrow> v),
               (''relatorio_descoberta'',
                  case sessionData (ui c) ''relatorio_descoberta'' of
                    None \<Rightarrow> JUndefined | Some v \<Rightarrow> v)])]"
  by (simp add: issue_def call_defs session_get_def)

text \<open>
  On the sample run: the three approvals, each in the review state in which the page
  offers it, send the report, the AS-IS diagram and the TO-BE diagram that the earlier
  modules returned.
\<close>

theorem stage_requests_carry_their_fields_witness:
  "reachable after_report \<and> enabled (User ApproveModulo2) after_report
   \<and> sent (step (User ApproveModulo2) after_report) = sent after_report @
       [Post ''/api/modulo2'' (Json [(''relatorio_descoberta'', JStr ''Relatorio'')])]
   \<and> reachable after_as_is \<and> enabled (User ApproveModulo3a) after_as_is
   \<and> sent (step (User ApproveModulo3a) after_as_is) = sent after_as_is @
       [Post ''/api/modulo3a''
          (Json [(''relatorio_descoberta'', JStr ''Relatorio''),
                 (''bpmn_xml_as_is'', JStr ''<as-is/>'')])]
   \<and> reachable after_to_be \<and> enabled (User ApproveModulo4) after_to_be
   \<and> sent (step (User ApproveModulo4) after_to_be) = sent after_to_be @
       [Post ''/api/modulo4''
          (Json [(''bpmn_xml_to_be'', JStr ''<to-be/>''),
                 (''relatorio_descoberta'', JStr ''Relatorio'')])]"
proof -
  have 1: "sessionData (ui after_report) ''relatorio_descoberta'' = Some (JStr ''Relatorio'')"
    "enabled (User ApproveModulo2) after_report"
    by (simp_all add: after_report_eq)
  have 2: "sessionData (ui after_as_is) ''relatorio_descoberta'' = Some (JStr ''Relatorio'')"
    "sessionData (ui after_as_is) ''bpmn_xml_as_is'' = Some (JStr ''<as-is/>'')"
    "enabled (User ApproveModulo3a) after_as_is"
    by (simp_all add: after_as_is_eq)
  have 3: "enabled (User ApproveModulo4) after_to_be"
    by (simp add: after_to_be_session)
  show ?thesis
    using reachable_after_report reachable_after_as_is reachable_after_to_be 1(2) 2(3) 3
      stage_requests_carry_their_fields[of after_report]
      stage_requests_carry_their_fields[of after_as_is]
      stage_requests_carry_their_fields[of after_to_be]
    by (simp add: 1(1) 2(1,2) after_to_be_session(3,4) del: step.simps enabled.simps)
qed

section \<open>Error messages\<close>

text \<open>
  Claim C8. For a response that is not \<open>ok\<close> the handlers call \<open>res.json()\<close> before they
  look for a \<open>detail\<close>. When the body is not JSON, \<open>res.json()\<close> rejects, and the message
  shown is the parser's, not the default of the module: module 2 is approved after a
  report, the server answers with status 500 and a plain text, and \<open>error\<close> is the
  message of the syntax error instead of the default message of module 2. (For a body
  that is JSON, \<open>settle_not_ok_detail\<close> gives the detail or the default.)
\<close>

theorem error_body_not_json_gives_parser_message:
  "view (ui after_plain_text_error) = ''error''
   \<and> error (ui after_plain_text_error) = ''Unexpected token I in JSON at position 0''
   \<and> error (ui after_plain_text_error) \<noteq> erro_no_modulo ''2''
   \<and> sessionData (ui after_plain_text_error) = sessionData (ui after_report)"
  by (simp add: after_plain_text_error_def after_report_eq plain_text_error_def issue_def
      call_defs settle_defs await_json_def catch_error_def erro_no_modulo_def)

section \<open>The progress indicator\<close>

text \<open>
  Claim C9. \<open>getActiveStep\<close> depends on \<open>view\<close> alone, and puts the views into four steps:
  \<open>modulo1\<close> and \<open>review1\<close> are step 0, \<open>modulo2\<close> and \<open>review2\<close> step 1, \<open>modulo3a\<close>,
  \<open>review3a\<close>, \<open>modulo3b\<close> and \<open>review3b\<close> step 2, \<open>modulo4\<close> and \<open>final\<close> step 3. (The views
  \<open>upload\<close> and \<open>error\<close> give -1.)
\<close>

theorem getActiveStep_buckets:
  "getActiveStep (s\<lparr>view := ''modulo1''\<rparr>) = 0
   \<and> getActiveStep (s\<lparr>view := ''review1''\<rparr>) = 0
   \<and> getActiveStep (s\<lparr>view := ''modulo2''\<rparr>) = 1
   \<and> getActiveStep (s\<lparr>view := ''review2''\<rparr>) = 1
   \<and> getActiveStep (s\<lparr>view := ''modulo3a''\<rparr>) = 2
   \<and> getActiveStep (s\<lparr>view := ''review3a''\<rparr>) = 2
   \<and> getActiveStep (s\<lparr>view := ''modulo3b''\<rparr>) = 2
   \<and> getActiveStep (s\<lparr>view := ''review3b''\<rparr>) = 2
   \<and> getActiveStep (s\<lparr>view := ''modulo4''\<rparr>) = 3
   \<and> getActiveStep (s\<lparr>view := ''final''\<rparr>) = 3
   \<and> getActiveStep (s\<lparr>view := ''upload''\<rparr>) = - 1
   \<and> getActiveStep (s\<lparr>view := ''error''\<rparr>) = - 1
   \<and> getActiveStep (s\<lparr>error := e, sessionData := d\<rparr>) = getActiveStep s"
  by (simp add: getActiveStep_def)

section \<open>The advisory notice\<close>

text \<open>
  Claim C10. When the call of module 2 or of module 3B succeeds, \<open>aviso_bizagi\<close> becomes
  what the read of that property on the response body gives, whatever it held before.
  If the body is an object with the property, its value is stored. If the body is an
  object without the property, the read gives \<open>undefined\<close>, and that is stored: a notice
  kept from module 2 is gone after a success of module 3B whose response has none.
\<close>

theorem aviso_bizagi_overwritten:
  assumes "h = HModulo2 \<or> h = HModulo3b" and "\<not> call_fails r"
  shows "(\<exists>json a. r = Response True (Parsed json) \<and> get_prop json ''aviso_bizagi'' = Inr a
            \<and> sessionData (settle h r s) ''aviso_bizagi'' = Some a)
    \<and> (\<forall>kvs. r = Response True (Parsed (JObj kvs)) \<longrightarrow> map_of kvs ''aviso_bizagi'' = None \<longrightarrow>
            sessionData (settle h r s) ''aviso_bizagi'' = Some JUndefined)
    \<and> (\<forall>kvs v. r = Response True (Parsed (JObj kvs)) \<longrightarrow>
            map_of kvs ''aviso_bizagi'' = Some v \<longrightarrow>
            sessionData (settle h r s) ''aviso_bizagi'' = Some v)"
proof -
  obtain v where v: "r = Response True (Parsed v)" "v \<noteq> JNull" "v \<noteq> JUndefined"
    using await_json_ok[OF assms(2)] by blast
  have g: "\<exists>x. get_prop v p = Inr x" for p
    using v get_prop_defined by blast
  have 1: "\<exists>a. get_prop v ''aviso_bizagi'' = Inr a
      \<and> sessionData (settle h r s) ''aviso_bizagi'' = Some a"
    unfolding v(1)
    using assms(1) g[of "''bpmn_xml_as_is''"] g[of "''bpmn_validation''"]
      g[of "''aviso_bizagi''"] g[of "''bpmn_xml_to_be''"]
    by (auto simp: settle_defs await_json_def updateSession_def)
  then have 2: "sessionData (settle h r s) ''aviso_bizagi'' = Some JUndefined"
    if "v = JObj kvs" "map_of kvs ''aviso_bizagi'' = None" for kvs
    using that by auto
  from 1 have 3: "sessionData (settle h r s) ''aviso_bizagi'' = Some x"
    if "v = JObj kvs" "map_of kvs ''aviso_bizagi'' = Some x" for kvs x
    using that by auto
  show ?thesis
    using 1 2 3 v(1) by auto
qed

theorem aviso_bizagi_overwritten_witness:
  "\<not> call_fails to_be_response \<and> \<not> call_fails to_be_response_with_notice
   \<and> \<not> call_fails as_is_response
   \<and> sessionData with_notice ''aviso_bizagi'' = Some (JStr ''Aviso'')
   \<and> sessionData (settle HModulo3b to_be_response with_notice) ''aviso_bizagi'' =
       Some JUndefined
   \<and> sessionData (settle HModulo3b to_be_response_with_notice with_notice) ''aviso_bizagi'' =
       Some (JStr ''Novo aviso'')
   \<and> sessionData initial_state ''aviso_bizagi'' = Some (JStr '''')
   \<and> sessionData (settle HModulo2 as_is_response initial_state) ''aviso_bizagi'' =
       Some (JStr ''Aviso'')"
proof -
  have 1: "HModulo3b = HModulo2 \<or> HModulo3b = HModulo3b" "HModulo2 = HModulo2 \<or> HModulo2 = HModulo3b"
    by simp_all
  have 2: "\<not> call_fails to_be_response" "\<not> call_fails to_be_response_with_notice"
    "\<not> call_fails as_is_response"
    by (simp_all add: to_be_response_def to_be_response_with_notice_def as_is_response_def)
  have 3: "sessionData with_notice ''aviso_bizagi'' = Some (JStr ''Aviso'')"
    "sessionData initial_state ''aviso_bizagi'' = Some (JStr '''')"
    by (simp_all add: with_notice_def initial_state_def)
  have a: "sessionData (settle HModulo3b to_be_response with_notice) ''aviso_bizagi'' =
      Some JUndefined"
    using aviso_bizagi_overwritten[OF 1(1) 2(1), of with_notice]
    by (simp add: to_be_response_def)
  have b: "sessionData (settle HModulo3b to_be_response_with_notice with_notice)
      ''aviso_bizagi'' = Some (JStr ''Novo aviso'')"
    using aviso_bizagi_overwritten[OF 1(1) 2(2), of with_notice]
    by (simp add: to_be_response_with_notice_def)
  have c: "sessionData (settle HModulo2 as_is_response initial_state) ''aviso_bizagi'' =
      Some (JStr ''Aviso'')"
    using aviso_bizagi_overwritten[OF 1(2) 2(3), of initial_state]
    by (simp add: as_is_response_def)
  show ?thesis
    using 2 3 a b c by simp
qed

end
